theory Spec2Isabelle
  imports Main
begin

section \<open>Go values used by cursor.go and document.go\<close>

text \<open>
  A Go \<open>error\<close> is either a value built by \<open>errors.New\<close> (the message is kept) or a value
  handed over by a collaborator (the HTTP transport, \<open>encoding/json\<close>), which the code under
  study never inspects: such a value is identified by a number.
  Go's \<open>int\<close> is modelled as \<open>int\<close>, without wrap-around: \<open>Index\<close> moves by one from a
  position the code has just compared with the length of an in-memory slice or with \<open>max\<close>,
  and nothing stated below is about positions next to the machine bound.
\<close>

datatype error = ErrorsNew string | External nat

datatype panic = IndexOutOfRange int nat | ReflectElemOfNonPointer

datatype 'a outcome = Returns 'a | Panics panic

text \<open>\<open>strconv.Itoa\<close>: the decimal digits, with a leading minus sign below zero.\<close>

fun digits :: "nat \<Rightarrow> string" where
  "digits n =
     (if n < 10 then [''0123456789'' ! n]
      else digits (n div 10) @ [''0123456789'' ! (n mod 10)])"

declare digits.simps [simp del]

definition Itoa :: "int \<Rightarrow> string" where
  "Itoa i = (if i < 0 then CHR ''-'' # digits (nat (- i)) else digits (nat i))"

text \<open>
  Reading a decimal text back, written apart from \<open>Itoa\<close>: an optional minus sign, then at
  least one digit and nothing but digits. It says what it is for a text to show a number.
\<close>

definition digit_value :: "char \<Rightarrow> nat option" where
  "digit_value ch =
     (if ch = CHR ''0'' then Some 0 else if ch = CHR ''1'' then Some 1
      else if ch = CHR ''2'' then Some 2 else if ch = CHR ''3'' then Some 3
      else if ch = CHR ''4'' then Some 4 else if ch = CHR ''5'' then Some 5
      else if ch = CHR ''6'' then Some 6 else if ch = CHR ''7'' then Some 7
      else if ch = CHR ''8'' then Some 8 else if ch = CHR ''9'' then Some 9
      else None)"

fun read_digits :: "nat \<Rightarrow> string \<Rightarrow> nat option" where
  "read_digits acc [] = Some acc"
| "read_digits acc (ch # cs) =
     (case digit_value ch of
        None \<Rightarrow> None
      | Some d \<Rightarrow> read_digits (10 * acc + d) cs)"

definition read_decimal :: "string \<Rightarrow> int option" where
  "read_decimal s =
     (case s of
        [] \<Rightarrow> None
      | ch # cs \<Rightarrow>
          if ch = CHR ''-''
          then (if cs = [] then None else map_option (\<lambda>v. - int v) (read_digits 0 cs))
          else map_option int (read_digits 0 s))"

text \<open>
  \<open>strings.Split(s, "/")\<close>, for the one-byte separator the code uses: the pieces between the
  separators, in order; a string with \<open>k\<close> separators has \<open>k + 1\<close> pieces, some of them
  possibly empty, and the empty string has the one piece \<open>""\<close>.
\<close>

fun strings_Split :: "string \<Rightarrow> char \<Rightarrow> string list" where
  "strings_Split [] sep = [[]]"
| "strings_Split (x # xs) sep =
     (if x = sep then [] # strings_Split xs sep
      else (case strings_Split xs sep of
              [] \<Rightarrow> [[x]]
            | y # ys \<Rightarrow> (x # y) # ys))"

text \<open>
  \<open>reflect.Kind\<close>, and what \<open>reflect.ValueOf(r).Elem().Kind()\<close> sees of the value a caller
  passes as decode target: \<open>Elem\<close> panics unless \<open>r\<close> is a pointer (a nil interface or a
  plain value has nothing to point to), a nil pointer has an element of kind \<open>Invalid\<close>, and
  a pointer has the kind of what it points to. The pointed-to contents are of a type \<open>'v\<close>.
\<close>

datatype kind =
    Invalid | Bool | Int | Int8 | Int16 | Int32 | Int64
  | Uint | Uint8 | Uint16 | Uint32 | Uint64 | Uintptr
  | Float32 | Float64 | Complex64 | Complex128
  | Array | Chan | Func | Interface | Map | Ptr | Slice | String | Struct | UnsafePointer

datatype 'v target = NotPointer | NilPointer | Pointer kind 'v

fun Elem_Kind :: "'v target \<Rightarrow> panic + kind" where
  "Elem_Kind NotPointer = Inl ReflectElemOfNonPointer"
| "Elem_Kind NilPointer = Inr Invalid"
| "Elem_Kind (Pointer k v) = Inr k"

text \<open>Indexing a slice, \<open>xs[i]\<close>: Go panics outside \<open>0 \<le> i < len(xs)\<close>.\<close>

definition index_slice :: "'a list \<Rightarrow> int \<Rightarrow> 'a option" where
  "index_slice xs i = (if 0 \<le> i \<and> i < int (length xs) then Some (xs ! nat i) else None)"

section \<open>The transport collaborator\<close>

text \<open>
  Modelled from the spec: the \<open>Database\<close> type with its \<open>send\<close> and \<open>get\<close> methods and the
  response type are not among the files under study. The spec (section 6) gives them as
  \<open>send(resourceKind, identifier, httpMethod, headers, requestBody, responseTarget) \<rightarrow>
  (response{status: int}, error)\<close>, and \<open>get\<close> likewise, a black box. So a reply is a status and
  an optional error, and the two methods are parameters of every operation that calls them.
  They read and change a server state of type \<open>'w\<close>; the requests issued so far are logged
  beside it, so that "no network call" is a statement about the log. A call always hands
  back a response here: what \<open>res.Status()\<close> does on a missing response is not modelled.
\<close>

record reply =
  status :: int
  err :: "error option"

record call =
  resource :: string
  ident :: string
  verb :: string

record 'w net =
  server :: 'w
  calls :: "call list"

section \<open>cursor.go\<close>

record Stats =
  WritesExecuted :: int
  WritesIgnored :: int
  ScannedFull :: int
  ScannedIndex :: int
  Filtered :: int
  ExecutionTime :: int
  FullCount_stat :: int

record 'a Extra =
  Stats_of :: Stats
  Warnings :: "'a list"

text \<open>
  The \<open>Cursor\<close> struct. The fields \<open>Id\<close>, \<open>Code\<close> and \<open>max\<close> carry a suffix, their names being
  taken in HOL. Rows are values of a type \<open>'a\<close> (Go's \<open>interface{}\<close>); the database handle is
  \<open>None\<close> for a nil pointer. \<open>ExecutionTime\<close> (a float64) and \<open>Time\<close> are carried along only.
\<close>

record ('db, 'a) Cursor =
  db :: "'db option"
  Id_cur :: string
  Index :: int
  Result :: "'a list"
  More :: bool
  Amount :: int
  Data :: "'a Extra"
  Cached :: bool
  Err :: bool
  ErrMsg :: string
  Code_cur :: int
  max_cur :: int
  Time :: int

text \<open>The zero value of the struct, as \<open>var c Cursor\<close> declares it.\<close>

definition zero_Cursor :: "('db, 'a) Cursor" where
  "zero_Cursor =
     \<lparr> db = None, Id_cur = [], Index = 0, Result = [], More = False, Amount = 0,
       Data = \<lparr> Stats_of = \<lparr> WritesExecuted = 0, WritesIgnored = 0, ScannedFull = 0,
                  ScannedIndex = 0, Filtered = 0, ExecutionTime = 0, FullCount_stat = 0 \<rparr>,
                Warnings = [] \<rparr>,
       Cached = False, Err = False, ErrMsg = [], Code_cur = 0, max_cur = 0, Time = 0 \<rparr>"

definition NewCursor :: "'db option \<Rightarrow> ('db, 'a) Cursor option" where
  "NewCursor d =
     (case d of
        None \<Rightarrow> None
      | Some h \<Rightarrow> Some (zero_Cursor \<lparr> db := Some h \<rparr>))"

text \<open>
  \<open>c.db.send("cursor", c.Id, verb, nil, c, c)\<close>. The cursor is the request body and the target
  the response is decoded into, so the transport hands back the cursor as it left it. The
  decoding goes through the struct's JSON tags: \<open>Index\<close> is tagged \<open>json:"-"\<close>, \<open>db\<close> and \<open>max\<close>
  are unexported, so these three fields keep their values whatever the transport does.
\<close>

type_synonym ('db, 'a, 'w) send =
  "'db option \<Rightarrow> string \<Rightarrow> string \<Rightarrow> string \<Rightarrow> ('db, 'a) Cursor \<Rightarrow> 'w
     \<Rightarrow> (reply \<times> ('db, 'a) Cursor) \<times> 'w"

definition cursor_send ::
  "('db, 'a, 'w) send \<Rightarrow> string \<Rightarrow> ('db, 'a) Cursor \<Rightarrow> 'w net
     \<Rightarrow> (reply \<times> ('db, 'a) Cursor) \<times> 'w net" where
  "cursor_send send v c n =
     (case send (db c) ''cursor'' (Id_cur c) v c (server n) of
        ((rep, c'), s') \<Rightarrow>
          ((rep, c' \<lparr> db := db c, Index := Index c, max_cur := max_cur c \<rparr>),
           \<lparr> server = s',
             calls = calls n @ [\<lparr> resource = ''cursor'', ident = Id_cur c, verb = v \<rparr>] \<rparr>))"

text \<open>\<open>Delete\<close>: the pair it returns, the cursor and the network afterwards.\<close>

definition Delete ::
  "('db, 'a, 'w) send \<Rightarrow> ('db, 'a) Cursor \<Rightarrow> 'w net
     \<Rightarrow> (bool \<times> error option) \<times> ('db, 'a) Cursor \<times> 'w net" where
  "Delete send c n =
     (if Id_cur c = [] then ((False, None), c, n)
      else (case cursor_send send ''DELETE'' c n of
              ((rep, c'), n') \<Rightarrow>
                (case err rep of
                   Some e \<Rightarrow> ((False, Some e), c', n')
                 | None \<Rightarrow>
                     if status rep = 202 then ((True, None), c', n')
                     else if status rep = 404 then ((False, None), c', n')
                     else ((False, None), c', n'))))"

definition HasMore :: "('db, 'a) Cursor \<Rightarrow> bool" where
  "HasMore c = More c"

text \<open>
  \<open>json.Marshal\<close> and \<open>json.Unmarshal\<close> are parameters: \<open>marshal\<close> is \<open>json.Marshal\<close> at the
  type it is called at (the whole batch in \<open>FetchBatch\<close>, one row in \<open>FetchOne\<close> and
  \<open>FetchNext\<close>) and gives the bytes or an error; \<open>unmarshal\<close> gives its error, if any, and the
  target as it leaves it.

  \<open>FetchBatch\<close> returns its error, the cursor, the target and the network.
\<close>

definition FetchBatch ::
  "('db, 'a, 'w) send \<Rightarrow> ('a list \<Rightarrow> error + string)
     \<Rightarrow> (string \<Rightarrow> 'v target \<Rightarrow> error option \<times> 'v target)
     \<Rightarrow> ('db, 'a) Cursor \<Rightarrow> 'v target \<Rightarrow> 'w net
     \<Rightarrow> (error option \<times> ('db, 'a) Cursor \<times> 'v target \<times> 'w net) outcome" where
  "FetchBatch send marshal unmarshal c r n =
     (case Elem_Kind r of
        Inl p \<Rightarrow> Panics p
      | Inr kind \<Rightarrow>
          if kind \<noteq> Slice \<and> kind \<noteq> Array
          then Returns (Some (ErrorsNew ''Container must be Slice of array kind''), c, r, n)
          else (case marshal (Result c) of
                  Inl e \<Rightarrow> Returns (Some e, c, r, n)
                | Inr b \<Rightarrow>
                    (case unmarshal b r of
                       (Some e, r') \<Rightarrow> Returns (Some e, c, r', n)
                     | (None, r') \<Rightarrow>
                         if HasMore c
                         then (case cursor_send send ''PUT'' c n of
                                 ((rep, c'), n') \<Rightarrow>
                                   if status rep = 200 then Returns (None, c', r', n')
                                   else (case err rep of
                                           Some e \<Rightarrow> Returns (Some e, c', r', n')
                                         | None \<Rightarrow> Returns (None, c', r', n')))
                         else Returns (None, c, r', n))))"

text \<open>
  \<open>FetchOne\<close>. In its decode branch the error of \<open>json.Marshal\<close> is overwritten by that of
  \<open>json.Unmarshal\<close>, which then reads the nil bytes \<open>json.Marshal\<close> returns with an error.
\<close>

definition FetchOne ::
  "('db, 'a, 'w) send \<Rightarrow> ('a \<Rightarrow> error + string)
     \<Rightarrow> (string \<Rightarrow> 'v target \<Rightarrow> error option \<times> 'v target)
     \<Rightarrow> ('db, 'a) Cursor \<Rightarrow> 'v target \<Rightarrow> 'w net
     \<Rightarrow> (bool \<times> ('db, 'a) Cursor \<times> 'v target \<times> 'w net) outcome" where
  "FetchOne send marshal unmarshal c r n =
     (if Index c > max_cur c
      then (if More c
            then (case cursor_send send ''PUT'' c n of
                    ((rep, c'), n') \<Rightarrow>
                      (case err rep of
                         Some e \<Rightarrow> Returns (False, c', r, n')
                       | None \<Rightarrow>
                           if status rep = 200 then Returns (True, c' \<lparr> Index := 0 \<rparr>, r, n')
                           else Returns (False, c', r, n')))
            else Returns (False, c, r, n))
      else (case index_slice (Result c) (Index c) of
              None \<Rightarrow> Panics (IndexOutOfRange (Index c) (length (Result c)))
            | Some x \<Rightarrow>
                (case unmarshal (case marshal x of Inl e \<Rightarrow> [] | Inr b \<Rightarrow> b) r of
                   (e, r') \<Rightarrow> Returns (e = None, c \<lparr> Index := Index c + 1 \<rparr>, r', n))))"

text \<open>\<open>FetchNext\<close>: first its last ten lines, the decoding of the row at \<open>Index\<close>.\<close>

definition FetchNext_row ::
  "('a \<Rightarrow> error + string) \<Rightarrow> (string \<Rightarrow> 'v target \<Rightarrow> error option \<times> 'v target)
     \<Rightarrow> ('db, 'a) Cursor \<Rightarrow> 'v target \<Rightarrow> 'w net
     \<Rightarrow> ((bool \<times> error option) \<times> ('db, 'a) Cursor \<times> 'v target \<times> 'w net) outcome" where
  "FetchNext_row marshal unmarshal c r n =
     (case index_slice (Result c) (Index c) of
        None \<Rightarrow> Panics (IndexOutOfRange (Index c) (length (Result c)))
      | Some x \<Rightarrow>
          (case marshal x of
             Inl e \<Rightarrow> Returns ((False, Some e), c, r, n)
           | Inr b \<Rightarrow>
               (case unmarshal b r of
                  (Some e, r') \<Rightarrow> Returns ((False, Some e), c, r', n)
                | (None, r') \<Rightarrow>
                    Returns ((True, None), c \<lparr> Index := Index c + 1 \<rparr>, r', n))))"

definition FetchNext ::
  "('db, 'a, 'w) send \<Rightarrow> ('a \<Rightarrow> error + string)
     \<Rightarrow> (string \<Rightarrow> 'v target \<Rightarrow> error option \<times> 'v target)
     \<Rightarrow> ('db, 'a) Cursor \<Rightarrow> 'v target \<Rightarrow> 'w net
     \<Rightarrow> ((bool \<times> error option) \<times> ('db, 'a) Cursor \<times> 'v target \<times> 'w net) outcome" where
  "FetchNext send marshal unmarshal c r n =
     (if Index c \<ge> int (length (Result c))
      then (if More c
            then (case cursor_send send ''PUT'' c n of
                    ((rep, c'), n') \<Rightarrow>
                      (case err rep of
                         Some e \<Rightarrow> Returns ((False, Some e), c', r, n')
                       | None \<Rightarrow>
                           if status rep = 200
                           then FetchNext_row marshal unmarshal (c' \<lparr> Index := 0 \<rparr>) r n'
                           else Returns
                                  ((False,
                                    Some (ErrorsNew
                                      (''Cursor batch request returned status code of ''
                                         @ Itoa (status rep)))),
                                   c', r, n')))
            else Returns ((False, None), c, r, n))
      else FetchNext_row marshal unmarshal c r n)"

text \<open>\<open>Next\<close> takes the decode target and does not use it.\<close>

definition Next :: "('db, 'a) Cursor \<Rightarrow> 'v target \<Rightarrow> bool \<times> ('db, 'a) Cursor" where
  "Next c r =
     (if Index c = max_cur c then (False, c)
      else (if Index c + 1 = max_cur c
            then (True, c \<lparr> Index := Index c + 1 \<rparr>)
            else (False, c \<lparr> Index := Index c + 1 \<rparr>)))"

text \<open>
  A caller's loop: \<open>k\<close> successive calls on the same cursor and target, each on the state the
  one before left; the list of what the calls returned. A panic ends the run.
\<close>

fun FetchOne_calls ::
  "('db, 'a, 'w) send \<Rightarrow> ('a \<Rightarrow> error + string)
     \<Rightarrow> (string \<Rightarrow> 'v target \<Rightarrow> error option \<times> 'v target)
     \<Rightarrow> nat \<Rightarrow> ('db, 'a) Cursor \<Rightarrow> 'v target \<Rightarrow> 'w net \<Rightarrow> bool outcome list" where
  "FetchOne_calls send marshal unmarshal 0 c r n = []"
| "FetchOne_calls send marshal unmarshal (Suc k) c r n =
     (case FetchOne send marshal unmarshal c r n of
        Panics p \<Rightarrow> [Panics p]
      | Returns (b, c', r', n') \<Rightarrow> Returns b # FetchOne_calls send marshal unmarshal k c' r' n')"

fun FetchNext_calls ::
  "('db, 'a, 'w) send \<Rightarrow> ('a \<Rightarrow> error + string)
     \<Rightarrow> (string \<Rightarrow> 'v target \<Rightarrow> error option \<times> 'v target)
     \<Rightarrow> nat \<Rightarrow> ('db, 'a) Cursor \<Rightarrow> 'v target \<Rightarrow> 'w net
     \<Rightarrow> (bool \<times> error option) outcome list" where
  "FetchNext_calls send marshal unmarshal 0 c r n = []"
| "FetchNext_calls send marshal unmarshal (Suc k) c r n =
     (case FetchNext send marshal unmarshal c r n of
        Panics p \<Rightarrow> [Panics p]
      | Returns (b, c', r', n') \<Rightarrow> Returns b # FetchNext_calls send marshal unmarshal k c' r' n')"

section \<open>document.go\<close>

record Document =
  Id_doc :: string
  Rev :: string
  Key :: string
  Error :: bool
  Message :: string
  Code_doc :: int
  Num :: int

definition zero_Document :: Document where
  "zero_Document =
     \<lparr> Id_doc = [], Rev = [], Key = [], Error = False, Message = [], Code_doc = 0, Num = 0 \<rparr>"

definition NewDocument :: "string \<Rightarrow> error + Document" where
  "NewDocument s =
     (let sid = strings_Split s CHR ''/'' in
      if length sid \<noteq> 2 then Inl (ErrorsNew ''Invalid id'')
      else if s = [] then Inl (ErrorsNew ''Invalid empty id'')
      else Inr (zero_Document \<lparr> Id_doc := s, Key := sid ! 1 \<rparr>))"





section \<open>Properties stated over the operations\<close>

text \<open>The bounds the spec gives for the cursor position: \<open>0 \<le> index \<le> len(batch)\<close>.\<close>

definition index_in_bounds :: "('db, 'a) Cursor \<Rightarrow> bool" where
  "index_in_bounds c = (0 \<le> Index c \<and> Index c \<le> int (length (Result c)))"

section \<open>Concrete collaborators for the examples\<close>

text \<open>
  A transport that answers every request with one fixed status and error and decodes its
  body into the cursor by \<open>f\<close>; a codec whose rows are JSON texts, encoded as they are and
  decoded by storing the text behind the pointer; a populated cursor and a network on which
  nothing has been sent yet.
\<close>

definition reply_with ::
  "int \<Rightarrow> error option \<Rightarrow> (('db, 'a) Cursor \<Rightarrow> ('db, 'a) Cursor) \<Rightarrow> ('db, 'a, 'w) send" where
  "reply_with st e f = (\<lambda>h res i v c w. ((\<lparr> status = st, err = e \<rparr>, f c), w))"


definition marshal_text :: "string \<Rightarrow> error + string" where
  "marshal_text x = Inr x"

definition marshal_texts :: "string list \<Rightarrow> error + string" where
  "marshal_texts xs = Inr (concat xs)"

definition unmarshal_text :: "string \<Rightarrow> string target \<Rightarrow> error option \<times> string target" where
  "unmarshal_text b r =
     (case r of
        NotPointer \<Rightarrow> (Some (External 0), r)
      | NilPointer \<Rightarrow> (Some (External 0), r)
      | Pointer k v \<Rightarrow> (None, Pointer k b))"

definition cursor_over :: "string list \<Rightarrow> (unit, string) Cursor" where
  "cursor_over rows = zero_Cursor \<lparr> db := Some (), Id_cur := ''42'', Result := rows \<rparr>"

definition offline :: "unit net" where
  "offline = \<lparr> server = (), calls = [] \<rparr>"


section \<open>Theorems\<close>

text \<open>
  C4. There is a reachable cursor state on which \<open>FetchOne\<close> evaluates \<open>c.Result[c.Index]\<close>
  with \<open>Index \<ge> len(Result)\<close>: the cursor \<open>NewCursor\<close> returns has an empty batch, \<open>Index = 0\<close>,
  \<open>More = false\<close> and \<open>max = 0\<close>, so \<open>Index > max\<close> is false, the decode branch is taken and
  the empty batch is indexed at 0, which is Go's index-out-of-range panic. Nothing in
  \<open>FetchOne\<close> compares \<open>Index\<close> with \<open>len(Result)\<close>.
\<close>

theorem FetchOne_unguarded_index:
  "\<exists>c. NewCursor (Some h) = Some c \<and> Result c = [] \<and> Index c = 0 \<and> \<not> More c \<and> max_cur c = 0
       \<and> FetchOne send marshal unmarshal c r n = Panics (IndexOutOfRange 0 0)"
  by (simp add: NewCursor_def zero_Cursor_def FetchOne_def index_slice_def)

text \<open>
  C9, as amended. For every cursor and every target that is a pointer (nil or not) and
  whose underlying kind (the kind of what the pointer \<open>r\<close> points to,
  \<open>reflect.ValueOf(r).Elem().Kind()\<close>) is neither slice nor array, \<open>FetchBatch\<close> returns the
  type-mismatch error; the log of requests, the server, the cursor and the target are as
  before, so nothing was sent and nothing decoded.
\<close>

theorem FetchBatch_rejects_non_sequence:
  assumes "Elem_Kind r = Inr k" and "k \<noteq> Slice" and "k \<noteq> Array"
  shows "FetchBatch send marshal unmarshal c r n =
           Returns (Some (ErrorsNew ''Container must be Slice of array kind''), c, r, n)"
  using assms by (simp add: FetchBatch_def)

theorem FetchBatch_rejects_non_sequence_witness:
  "Elem_Kind (Pointer Struct ''x'') = Inr Struct \<and> Struct \<noteq> Slice \<and> Struct \<noteq> Array \<and>
   FetchBatch (reply_with 200 None (\<lambda>c. c)) marshal_texts unmarshal_text
       (cursor_over [''a'', ''b''] \<lparr> More := True \<rparr>) (Pointer Struct ''x'') offline =
     Returns (Some (ErrorsNew ''Container must be Slice of array kind''),
              cursor_over [''a'', ''b''] \<lparr> More := True \<rparr>, Pointer Struct ''x'', offline)"
  using FetchBatch_rejects_non_sequence
          [of "Pointer Struct ''x''" Struct "reply_with 200 None (\<lambda>c. c)" marshal_texts
              unmarshal_text "cursor_over [''a'', ''b''] \<lparr> More := True \<rparr>" offline]
  by simp

text \<open>
  The claim as it stands speaks of every target that is not a sequence container. A target
  that is no pointer at all (the number 42 or a struct passed by value, a nil interface)
  is not one, and on it \<open>FetchBatch\<close> returns nothing: \<open>Elem\<close> panics in its first line.
\<close>

theorem FetchBatch_non_pointer_counterexample:
  "FetchBatch (reply_with 200 None (\<lambda>c. c)) marshal_texts unmarshal_text
       (cursor_over [''a'', ''b'']) (NotPointer :: string target) offline =
     Panics ReflectElemOfNonPointer \<and>
   FetchBatch (reply_with 200 None (\<lambda>c. c)) marshal_texts unmarshal_text
       (cursor_over [''a'', ''b'']) (NotPointer :: string target) offline \<noteq>
     Returns (Some (ErrorsNew ''Container must be Slice of array kind''),
              cursor_over [''a'', ''b''], NotPointer, offline)"
  by (simp add: FetchBatch_def)

text \<open>
  C8. \<open>Delete\<close> on a cursor with an empty \<open>Id\<close> returns \<open>(false, nil)\<close> and leaves the cursor
  and the network as they were (no request). With a non-empty \<open>Id\<close> it issues one request,
  a DELETE of the cursor (the log grows by exactly this entry), and returns \<open>(false, err)\<close>
  when the transport returns the error \<open>err\<close>, otherwise \<open>(true, nil)\<close> on status 202 and
  \<open>(false, nil)\<close> on 404 and every other status.
\<close>

theorem Delete_contract:
  "(Id_cur c = [] \<longrightarrow> Delete send c n = ((False, None), c, n)) \<and>
   (Id_cur c \<noteq> [] \<and> send (db c) ''cursor'' (Id_cur c) ''DELETE'' c (server n) = ((rep, c1), s1) \<longrightarrow>
      Delete send c n =
        ((case err rep of Some e \<Rightarrow> (False, Some e) | None \<Rightarrow> (status rep = 202, None)),
         c1 \<lparr> db := db c, Index := Index c, max_cur := max_cur c \<rparr>,
         \<lparr> server = s1,
           calls = calls n @ [\<lparr> resource = ''cursor'', ident = Id_cur c, verb = ''DELETE'' \<rparr>] \<rparr>))"
  by (simp add: Delete_def cursor_send_def split: option.splits)

theorem Delete_contract_witness:
  "Delete (reply_with 202 None (\<lambda>c. c)) (cursor_over [] \<lparr> Id_cur := [] \<rparr>) offline =
     ((False, None), cursor_over [] \<lparr> Id_cur := [] \<rparr>, offline) \<and>
   fst (Delete (reply_with 202 None (\<lambda>c. c)) (cursor_over []) offline) = (True, None) \<and>
   fst (Delete (reply_with 404 None (\<lambda>c. c)) (cursor_over []) offline) = (False, None) \<and>
   fst (Delete (reply_with 500 None (\<lambda>c. c)) (cursor_over []) offline) = (False, None) \<and>
   fst (Delete (reply_with 0 (Some (External 7)) (\<lambda>c. c)) (cursor_over []) offline)
     = (False, Some (External 7)) \<and>
   calls (snd (snd (Delete (reply_with 202 None (\<lambda>c. c)) (cursor_over []) offline)))
     = [\<lparr> resource = ''cursor'', ident = ''42'', verb = ''DELETE'' \<rparr>]"
  using
    Delete_contract [where c = "cursor_over [] \<lparr> Id_cur := [] \<rparr>"
                        and send = "reply_with 202 None (\<lambda>c. c)" and n = offline]
    Delete_contract [where c = "cursor_over []" and send = "reply_with 202 None (\<lambda>c. c)"
                        and n = offline and rep = "\<lparr> status = 202, err = None \<rparr>"
                        and ?c1.0 = "cursor_over []" and ?s1.0 = "()"]
    Delete_contract [where c = "cursor_over []" and send = "reply_with 404 None (\<lambda>c. c)"
                        and n = offline and rep = "\<lparr> status = 404, err = None \<rparr>"
                        and ?c1.0 = "cursor_over []" and ?s1.0 = "()"]
    Delete_contract [where c = "cursor_over []" and send = "reply_with 500 None (\<lambda>c. c)"
                        and n = offline and rep = "\<lparr> status = 500, err = None \<rparr>"
                        and ?c1.0 = "cursor_over []" and ?s1.0 = "()"]
    Delete_contract [where c = "cursor_over []" and send = "reply_with 0 (Some (External 7)) (\<lambda>c. c)"
                        and n = offline and rep = "\<lparr> status = 0, err = Some (External 7) \<rparr>"
                        and ?c1.0 = "cursor_over []" and ?s1.0 = "()"]
  by (simp add: reply_with_def cursor_over_def offline_def)





text \<open>
  What \<open>strings.Split\<close> returns: one piece more than there are separators, the string
  itself when it has none, and the two sides when it has one.
\<close>

lemma strings_Split_not_Nil: "strings_Split s sep \<noteq> []"
  by (induction s) (auto split: list.splits)

lemma length_strings_Split: "length (strings_Split s sep) = Suc (count_list s sep)"
  by (induction s) (auto simp: strings_Split_not_Nil split: list.splits)

lemma strings_Split_no_sep: "sep \<notin> set s \<Longrightarrow> strings_Split s sep = [s]"
  by (induction s) auto

lemma strings_Split_one_sep:
  "sep \<notin> set a \<Longrightarrow> sep \<notin> set b \<Longrightarrow> strings_Split (a @ sep # b) sep = [a, b]"
  by (induction a) (auto simp: strings_Split_no_sep)

lemma count_list_one_split:
  "count_list s sep = 1 \<Longrightarrow> \<exists>a b. s = a @ sep # b \<and> sep \<notin> set a \<and> sep \<notin> set b"
proof (induction s)
  case Nil
  then show ?case by simp
next
  case (Cons x xs)
  show ?case
  proof (cases "x = sep")
    case True
    with Cons.prems have "count_list xs sep = 0" by simp
    then have "sep \<notin> set xs" by (simp add: count_list_0_iff)
    with True have "x # xs = [] @ sep # xs \<and> sep \<notin> set [] \<and> sep \<notin> set xs" by simp
    then show ?thesis by blast
  next
    case False
    with Cons.prems have "count_list xs sep = 1" by simp
    with Cons.IH obtain a b where "xs = a @ sep # b" "sep \<notin> set a" "sep \<notin> set b" by blast
    with False have "x # xs = (x # a) @ sep # b \<and> sep \<notin> set (x # a) \<and> sep \<notin> set b" by simp
    then show ?thesis by blast
  qed
qed

text \<open>
  C2, as amended. \<open>NewDocument(id)\<close> succeeds if and only if \<open>id\<close> splits on \<open>/\<close> into exactly
  two segments, that is, holds exactly one \<open>/\<close>; either segment may be empty. On success the
  document has \<open>Id\<close> equal to the input and \<open>Key\<close> equal to the second segment, all other
  fields zero; every other input (no slash, as in \<open>"bad"\<close> and \<open>""\<close>, or more than one) fails
  with the format error \<open>Invalid id\<close>. The three parts: an id of the form \<open>a/b\<close> with no
  slash in \<open>a\<close> and \<open>b\<close> succeeds; an id whose number of slashes is not one fails; and an id
  with one slash is of that form.
\<close>

theorem NewDocument_one_slash:
  "(CHR ''/'' \<notin> set a \<and> CHR ''/'' \<notin> set b \<longrightarrow>
      NewDocument (a @ ''/'' @ b) = Inr (zero_Document \<lparr> Id_doc := a @ ''/'' @ b, Key := b \<rparr>)) \<and>
   (count_list s CHR ''/'' \<noteq> 1 \<longrightarrow> NewDocument s = Inl (ErrorsNew ''Invalid id'')) \<and>
   (count_list s CHR ''/'' = 1 \<longrightarrow>
      (\<exists>a b. s = a @ ''/'' @ b \<and> CHR ''/'' \<notin> set a \<and> CHR ''/'' \<notin> set b))"
proof (intro conjI impI)
  assume "CHR ''/'' \<notin> set a \<and> CHR ''/'' \<notin> set b"
  then have "strings_Split (a @ CHR ''/'' # b) CHR ''/'' = [a, b]"
    by (simp add: strings_Split_one_sep)
  then show "NewDocument (a @ ''/'' @ b) = Inr (zero_Document \<lparr> Id_doc := a @ ''/'' @ b, Key := b \<rparr>)"
    by (simp add: NewDocument_def)
next
  assume "count_list s CHR ''/'' \<noteq> 1"
  then show "NewDocument s = Inl (ErrorsNew ''Invalid id'')"
    by (simp add: NewDocument_def length_strings_Split)
next
  assume one: "count_list s CHR ''/'' = 1"
  have "\<exists>a b. s = a @ CHR ''/'' # b \<and> CHR ''/'' \<notin> set a \<and> CHR ''/'' \<notin> set b"
    by (rule count_list_one_split [OF one])
  then show "\<exists>a b. s = a @ ''/'' @ b \<and> CHR ''/'' \<notin> set a \<and> CHR ''/'' \<notin> set b"
    by simp
qed

theorem NewDocument_one_slash_witness:
  "CHR ''/'' \<notin> set ''collection'' \<and> CHR ''/'' \<notin> set ''key'' \<and>
   NewDocument ''collection/key'' =
     Inr (zero_Document \<lparr> Id_doc := ''collection/key'', Key := ''key'' \<rparr>) \<and>
   count_list ''bad'' CHR ''/'' \<noteq> 1 \<and> NewDocument ''bad'' = Inl (ErrorsNew ''Invalid id'') \<and>
   count_list ''a/b'' CHR ''/'' = 1 \<and>
   (\<exists>a b. ''a/b'' = a @ ''/'' @ b \<and> CHR ''/'' \<notin> set a \<and> CHR ''/'' \<notin> set b)"
proof -
  have h1: "CHR ''/'' \<notin> set ''collection'' \<and> CHR ''/'' \<notin> set ''key''" by simp
  have h2: "count_list ''bad'' CHR ''/'' \<noteq> 1" by simp
  have h3: "count_list ''a/b'' CHR ''/'' = 1" by simp
  note t1 = NewDocument_one_slash [where a = "''collection''" and b = "''key''" and s = "[]",
                THEN conjunct1, THEN mp, OF h1]
  note t2 = NewDocument_one_slash [where a = "[]" and b = "[]" and s = "''bad''",
                THEN conjunct2, THEN conjunct1, THEN mp, OF h2]
  note t3 = NewDocument_one_slash [where a = "[]" and b = "[]" and s = "''a/b''",
                THEN conjunct2, THEN conjunct2, THEN mp, OF h3]
  have e: "''collection'' @ ''/'' @ ''key'' = ''collection/key''" by simp
  from t1 have t1': "NewDocument ''collection/key'' =
     Inr (zero_Document \<lparr> Id_doc := ''collection/key'', Key := ''key'' \<rparr>)"
    unfolding e .
  from h1 h2 h3 t1' t2 t3 show ?thesis by (intro conjI) (elim conjE, assumption)+
qed

text \<open>
  The claim as it stands asks for two non-empty segments; the code accepts an empty
  collection and an empty key.
\<close>

theorem NewDocument_empty_segment_counterexample:
  "NewDocument ''collection/'' = Inr (zero_Document \<lparr> Id_doc := ''collection/'', Key := [] \<rparr>) \<and>
   NewDocument ''/key'' = Inr (zero_Document \<lparr> Id_doc := ''/key'', Key := ''key'' \<rparr>)"
  by (simp add: NewDocument_def)

text \<open>
  \<open>Itoa\<close> writes the number: the digits it produces read back as the number they came
  from, sign included, so the text of a status code is that of no other.
\<close>

lemma digit_value_digit:
  assumes "d < 10"
  shows "digit_value (''0123456789'' ! d) = Some d"
proof -
  from assms have "d = 0 \<or> d = 1 \<or> d = 2 \<or> d = 3 \<or> d = 4 \<or> d = 5 \<or> d = 6 \<or> d = 7 \<or> d = 8 \<or> d = 9"
    by arith
  then show ?thesis
    by (elim disjE) (simp_all add: digit_value_def)
qed

lemma read_digits_append:
  "read_digits acc (xs @ [ch]) =
     (case read_digits acc xs of
        None \<Rightarrow> None
      | Some v \<Rightarrow> (case digit_value ch of None \<Rightarrow> None | Some d \<Rightarrow> Some (10 * v + d)))"
  by (induction xs arbitrary: acc) (simp_all split: option.splits)

lemma read_digits_digits: "read_digits 0 (digits n) = Some n"
proof (induction n rule: digits.induct)
  case (1 n)
  show ?case
  proof (cases "n < 10")
    case True
    then have "digits n = [''0123456789'' ! n]" by (simp add: digits.simps)
    with True show ?thesis by (simp add: digit_value_digit)
  next
    case False
    then have unfold: "digits n = digits (n div 10) @ [''0123456789'' ! (n mod 10)]"
      by (simp add: digits.simps)
    from False 1 have "read_digits 0 (digits (n div 10)) = Some (n div 10)" by simp
    moreover have "digit_value (''0123456789'' ! (n mod 10)) = Some (n mod 10)"
      by (rule digit_value_digit) simp
    ultimately show ?thesis
      unfolding unfold read_digits_append by simp
  qed
qed

lemma digits_not_Nil: "digits n \<noteq> []"
  by (cases "n < 10") (simp_all add: digits.simps)

lemma digits_first: "\<exists>ch cs. digits n = ch # cs \<and> ch \<noteq> CHR ''-''"
proof -
  obtain ch cs where split: "digits n = ch # cs"
    using digits_not_Nil [of n] by (cases "digits n") simp_all
  have "ch \<noteq> CHR ''-''"
  proof
    assume "ch = CHR ''-''"
    with split have "read_digits 0 (digits n) = None" by (simp add: digit_value_def)
    then show False by (simp add: read_digits_digits)
  qed
  with split show ?thesis by simp
qed

lemma read_decimal_Itoa: "read_decimal (Itoa i) = Some i"
proof (cases "i < 0")
  case True
  then show ?thesis
    by (simp add: read_decimal_def Itoa_def read_digits_digits digits_not_Nil)
next
  case False
  obtain ch cs where split: "digits (nat i) = ch # cs" and sign: "ch \<noteq> CHR ''-''"
    using digits_first [of "nat i"] by (elim exE conjE)
  have "read_digits 0 (ch # cs) = Some (nat i)"
    using read_digits_digits [of "nat i"] by (simp only: split)
  with False split sign show ?thesis
    by (simp add: read_decimal_def Itoa_def del: read_digits.simps)
qed

text \<open>
  C5. For a cursor with batch \<open>[r0, r1, r2]\<close>, \<open>hasMore = false\<close> and \<open>index = 0\<close>, whose rows
  encode and decode into the caller's target without error, three successive calls to
  \<open>FetchNext\<close> return \<open>(true, nil)\<close>, each leaving in the target the decoded row \<open>r0\<close>, \<open>r1\<close>,
  \<open>r2\<close> in turn and moving \<open>Index\<close> by one, and the fourth returns \<open>(false, nil)\<close>; the network
  is the same after every call, so no request was sent. And when the next batch is fetched
  (the batch is used up and \<open>hasMore\<close> is true) and the transport answers, without error,
  with a status other than 200, \<open>FetchNext\<close> returns \<open>false\<close> and an error whose message ends
  with the status code in decimal: the text \<open>strconv.Itoa\<close> gives for it, which reads back as
  the status code itself.
\<close>

theorem FetchNext_three_rows:
  assumes "Result c = [r0, r1, r2]" and "\<not> More c" and "Index c = 0"
    and "marshal r0 = Inr b0" and "unmarshal b0 t0 = (None, t1)"
    and "marshal r1 = Inr b1" and "unmarshal b1 t1 = (None, t2)"
    and "marshal r2 = Inr b2" and "unmarshal b2 t2 = (None, t3)"
  shows "FetchNext send marshal unmarshal c t0 n = Returns ((True, None), c \<lparr> Index := 1 \<rparr>, t1, n) \<and>
         FetchNext send marshal unmarshal (c \<lparr> Index := 1 \<rparr>) t1 n =
           Returns ((True, None), c \<lparr> Index := 2 \<rparr>, t2, n) \<and>
         FetchNext send marshal unmarshal (c \<lparr> Index := 2 \<rparr>) t2 n =
           Returns ((True, None), c \<lparr> Index := 3 \<rparr>, t3, n) \<and>
         FetchNext send marshal unmarshal (c \<lparr> Index := 3 \<rparr>) t3 n =
           Returns ((False, None), c \<lparr> Index := 3 \<rparr>, t3, n) \<and>
         (int (length (Result d)) \<le> Index d \<and> More d
            \<and> send (db d) ''cursor'' (Id_cur d) ''PUT'' d (server m) = ((rep, d1), s1)
            \<and> err rep = None \<and> status rep \<noteq> 200 \<longrightarrow>
          FetchNext send marshal unmarshal d t m =
            Returns ((False, Some (ErrorsNew (''Cursor batch request returned status code of ''
                                                @ Itoa (status rep)))),
                     d1 \<lparr> db := db d, Index := Index d, max_cur := max_cur d \<rparr>, t,
                     \<lparr> server = s1,
                       calls = calls m @ [\<lparr> resource = ''cursor'', ident = Id_cur d, verb = ''PUT'' \<rparr>] \<rparr>)
          \<and> read_decimal (Itoa (status rep)) = Some (status rep))"
proof (intro conjI impI)
  show "FetchNext send marshal unmarshal c t0 n = Returns ((True, None), c \<lparr> Index := 1 \<rparr>, t1, n)"
    using assms by (simp add: FetchNext_def FetchNext_row_def index_slice_def)
  show "FetchNext send marshal unmarshal (c \<lparr> Index := 1 \<rparr>) t1 n =
           Returns ((True, None), c \<lparr> Index := 2 \<rparr>, t2, n)"
    using assms by (simp add: FetchNext_def FetchNext_row_def index_slice_def)
  show "FetchNext send marshal unmarshal (c \<lparr> Index := 2 \<rparr>) t2 n =
           Returns ((True, None), c \<lparr> Index := 3 \<rparr>, t3, n)"
    using assms by (simp add: FetchNext_def FetchNext_row_def index_slice_def)
  show "FetchNext send marshal unmarshal (c \<lparr> Index := 3 \<rparr>) t3 n =
           Returns ((False, None), c \<lparr> Index := 3 \<rparr>, t3, n)"
    using assms by (simp add: FetchNext_def)
next
  assume "int (length (Result d)) \<le> Index d \<and> More d
            \<and> send (db d) ''cursor'' (Id_cur d) ''PUT'' d (server m) = ((rep, d1), s1)
            \<and> err rep = None \<and> status rep \<noteq> 200"
  then show "FetchNext send marshal unmarshal d t m =
            Returns ((False, Some (ErrorsNew (''Cursor batch request returned status code of ''
                                                @ Itoa (status rep)))),
                     d1 \<lparr> db := db d, Index := Index d, max_cur := max_cur d \<rparr>, t,
                     \<lparr> server = s1,
                       calls = calls m @ [\<lparr> resource = ''cursor'', ident = Id_cur d, verb = ''PUT'' \<rparr>] \<rparr>)"
    by (simp add: FetchNext_def cursor_send_def)
next
  show "read_decimal (Itoa (status rep)) = Some (status rep)"
    by (rule read_decimal_Itoa)
qed

lemma Itoa_404: "Itoa 404 = ''404''"
  by (simp add: Itoa_def digits.simps)

theorem FetchNext_three_rows_witness:
  "FetchNext (reply_with 404 None (\<lambda>c. c)) marshal_text unmarshal_text
       (cursor_over [''1'', ''2'', ''3'']) (Pointer String []) offline =
     Returns ((True, None), cursor_over [''1'', ''2'', ''3''] \<lparr> Index := 1 \<rparr>,
              Pointer String ''1'', offline) \<and>
   FetchNext (reply_with 404 None (\<lambda>c. c)) marshal_text unmarshal_text
       (cursor_over [''1'', ''2'', ''3''] \<lparr> Index := 1 \<rparr>) (Pointer String ''1'') offline =
     Returns ((True, None), cursor_over [''1'', ''2'', ''3''] \<lparr> Index := 2 \<rparr>,
              Pointer String ''2'', offline) \<and>
   FetchNext (reply_with 404 None (\<lambda>c. c)) marshal_text unmarshal_text
       (cursor_over [''1'', ''2'', ''3''] \<lparr> Index := 2 \<rparr>) (Pointer String ''2'') offline =
     Returns ((True, None), cursor_over [''1'', ''2'', ''3''] \<lparr> Index := 3 \<rparr>,
              Pointer String ''3'', offline) \<and>
   FetchNext (reply_with 404 None (\<lambda>c. c)) marshal_text unmarshal_text
       (cursor_over [''1'', ''2'', ''3''] \<lparr> Index := 3 \<rparr>) (Pointer String ''3'') offline =
     Returns ((False, None), cursor_over [''1'', ''2'', ''3''] \<lparr> Index := 3 \<rparr>,
              Pointer String ''3'', offline) \<and>
   FetchNext (reply_with 404 None (\<lambda>c. c)) marshal_text unmarshal_text
       (cursor_over [] \<lparr> More := True \<rparr>) (Pointer String []) offline =
     Returns ((False, Some (ErrorsNew ''Cursor batch request returned status code of 404'')),
              cursor_over [] \<lparr> More := True \<rparr>, Pointer String [],
              \<lparr> server = (),
                calls = [\<lparr> resource = ''cursor'', ident = ''42'', verb = ''PUT'' \<rparr>] \<rparr>) \<and>
   read_decimal ''404'' = Some 404"
  using FetchNext_three_rows
    [where c = "cursor_over [''1'', ''2'', ''3'']" and ?r0.0 = "''1''" and ?r1.0 = "''2''"
       and ?r2.0 = "''3''" and marshal = marshal_text and unmarshal = unmarshal_text
       and ?b0.0 = "''1''" and ?b1.0 = "''2''" and ?b2.0 = "''3''"
       and ?t0.0 = "Pointer String []" and ?t1.0 = "Pointer String ''1''"
       and ?t2.0 = "Pointer String ''2''" and ?t3.0 = "Pointer String ''3''"
       and send = "reply_with 404 None (\<lambda>c. c)" and n = offline
       and d = "cursor_over [] \<lparr> More := True \<rparr>" and m = offline
       and rep = "\<lparr> status = 404, err = None \<rparr>" and ?d1.0 = "cursor_over [] \<lparr> More := True \<rparr>"
       and ?s1.0 = "()" and t = "Pointer String []"]
  by (simp add: cursor_over_def zero_Cursor_def marshal_text_def unmarshal_text_def
        reply_with_def offline_def Itoa_404)

text \<open>
  C3. The claim: a transport error of the next-batch fetch inside \<open>FetchBatch\<close> is returned
  to the caller. \<open>FetchBatch\<close> tests \<open>res.Status() == 200\<close> before it tests \<open>err != nil\<close>, so
  when the transport hands back a response of status 200 together with an error (the
  response arrived and its body could not be decoded), \<open>FetchBatch\<close> returns \<open>nil\<close>: the
  error is lost. \<open>FetchNext\<close>, which tests the error first, returns it on the same reply.
\<close>

theorem FetchBatch_status_before_error:
  "FetchBatch (reply_with 200 (Some (External 1)) (\<lambda>c. c)) marshal_texts unmarshal_text
       (cursor_over [''1''] \<lparr> More := True \<rparr>) (Pointer Slice []) offline =
     Returns (None, cursor_over [''1''] \<lparr> More := True \<rparr>, Pointer Slice ''1'',
              \<lparr> server = (),
                calls = [\<lparr> resource = ''cursor'', ident = ''42'', verb = ''PUT'' \<rparr>] \<rparr>) \<and>
   FetchNext (reply_with 200 (Some (External 1)) (\<lambda>c. c)) marshal_text unmarshal_text
       (cursor_over [''1''] \<lparr> More := True, Index := 1 \<rparr>) (Pointer String []) offline =
     Returns ((False, Some (External 1)), cursor_over [''1''] \<lparr> More := True, Index := 1 \<rparr>,
              Pointer String [],
              \<lparr> server = (),
                calls = [\<lparr> resource = ''cursor'', ident = ''42'', verb = ''PUT'' \<rparr>] \<rparr>)"
  by (simp add: FetchBatch_def FetchNext_def HasMore_def cursor_send_def cursor_over_def
        zero_Cursor_def marshal_texts_def unmarshal_text_def reply_with_def offline_def)

text \<open>
  In general, once the batch is decoded and \<open>hasMore\<close> is true, \<open>FetchBatch\<close> returns the
  transport's error only under a status other than 200.
\<close>

lemma FetchBatch_next_batch_fetch:
  assumes "Elem_Kind r = Inr Slice \<or> Elem_Kind r = Inr Array"
    and "marshal (Result c) = Inr b" and "unmarshal b r = (None, r')" and "More c"
    and "send (db c) ''cursor'' (Id_cur c) ''PUT'' c (server n) = ((rep, c1), s1)"
  shows "FetchBatch send marshal unmarshal c r n =
           Returns (if status rep = 200 then None else err rep,
                    c1 \<lparr> db := db c, Index := Index c, max_cur := max_cur c \<rparr>, r',
                    \<lparr> server = s1,
                      calls = calls n @ [\<lparr> resource = ''cursor'', ident = Id_cur c, verb = ''PUT'' \<rparr>] \<rparr>)"
  using assms
  by (auto simp add: FetchBatch_def HasMore_def cursor_send_def split: option.splits)

text \<open>
  The other readers on a transport error of the same fetch: \<open>FetchNext\<close> returns it as it
  is; \<open>FetchOne\<close>, which returns a bool and nothing else, returns false.
\<close>

lemma FetchNext_transport_error:
  assumes "int (length (Result c)) \<le> Index c" and "More c"
    and "send (db c) ''cursor'' (Id_cur c) ''PUT'' c (server n) = ((rep, c1), s1)"
    and "err rep = Some e"
  shows "FetchNext send marshal unmarshal c r n =
           Returns ((False, Some e),
                    c1 \<lparr> db := db c, Index := Index c, max_cur := max_cur c \<rparr>, r,
                    \<lparr> server = s1,
                      calls = calls n @ [\<lparr> resource = ''cursor'', ident = Id_cur c, verb = ''PUT'' \<rparr>] \<rparr>)"
  using assms by (simp add: FetchNext_def cursor_send_def)

lemma FetchOne_transport_error:
  assumes "max_cur c < Index c" and "More c"
    and "send (db c) ''cursor'' (Id_cur c) ''PUT'' c (server n) = ((rep, c1), s1)"
    and "err rep = Some e"
  shows "FetchOne send marshal unmarshal c r n =
           Returns (False,
                    c1 \<lparr> db := db c, Index := Index c, max_cur := max_cur c \<rparr>, r,
                    \<lparr> server = s1,
                      calls = calls n @ [\<lparr> resource = ''cursor'', ident = Id_cur c, verb = ''PUT'' \<rparr>] \<rparr>)"
  using assms by (simp add: FetchOne_def cursor_send_def)

text \<open>
  The decoding step of \<open>FetchNext\<close> leaves \<open>Index\<close> within the batch it has just indexed.
\<close>

lemma FetchNext_row_bounds:
  assumes "FetchNext_row marshal unmarshal c r n = Returns (res, c', r', n')"
    and "0 \<le> Index c"
  shows "index_in_bounds c'"
  using assms
  by (auto simp add: FetchNext_row_def index_slice_def index_in_bounds_def
        split: option.splits sum.splits prod.splits if_splits)

lemma FetchNext_bounds:
  assumes inv: "index_in_bounds c"
    and ret: "FetchNext send marshal unmarshal c r n = Returns (res, c', r', n')"
    and ok: "snd res = None \<or> length (Result c) \<le> length (Result c')"
  shows "index_in_bounds c'"
proof (cases "int (length (Result c)) \<le> Index c")
  case False
  with ret have "FetchNext_row marshal unmarshal c r n = Returns (res, c', r', n')"
    by (simp add: FetchNext_def)
  with inv show ?thesis
    by (auto simp add: index_in_bounds_def dest: FetchNext_row_bounds)
next
  case used_up: True
  show ?thesis
  proof (cases "More c")
    case False
    with used_up ret inv show ?thesis by (simp add: FetchNext_def)
  next
    case True
    obtain rep c1 n1 where sent: "cursor_send send ''PUT'' c n = ((rep, c1), n1)"
      by (metis prod.exhaust)
    have idx: "Index c1 = Index c"
      using sent by (auto simp add: cursor_send_def split: prod.splits)
    show ?thesis
    proof (cases "err rep = None \<and> status rep = 200")
      case True
      with used_up \<open>More c\<close> sent ret
      have "FetchNext_row marshal unmarshal (c1 \<lparr> Index := 0 \<rparr>) r n1 = Returns (res, c', r', n')"
        by (simp add: FetchNext_def)
      then show ?thesis by (rule FetchNext_row_bounds) simp
    next
      case False
      with used_up \<open>More c\<close> sent ret have same: "c' = c1" and failed: "snd res \<noteq> None"
        by (auto simp add: FetchNext_def split: option.splits if_splits)
      with ok have "length (Result c) \<le> length (Result c1)" by simp
      with inv idx same show ?thesis by (simp add: index_in_bounds_def)
    qed
  qed
qed

lemma Next_bounds:
  assumes "index_in_bounds c" and "Index c = max_cur c \<or> Index c < int (length (Result c))"
  shows "index_in_bounds (snd (Next c r))"
  using assms by (auto simp add: Next_def index_in_bounds_def)

text \<open>
  C10, as amended. Starting from a cursor with \<open>0 \<le> index \<le> len(batch)\<close>, a call to
  \<open>FetchNext\<close> that returns leaves \<open>index\<close> within these bounds whenever it returns no error,
  and also when it returns an error, provided the reply of a next-batch fetch did not make
  the stored batch shorter (a failed fetch keeps \<open>index\<close> and takes the batch the reply
  decoded). A call to \<open>Next\<close> leaves \<open>index\<close> within the bounds whenever \<open>index = max\<close> (it
  does not move) or \<open>index < len(batch)\<close> (there is room for its one step).
\<close>

theorem index_bounds_FetchNext_Next:
  "(index_in_bounds c \<and> FetchNext send marshal unmarshal c r n = Returns (res, c', r', n')
      \<and> (snd res = None \<or> length (Result c) \<le> length (Result c')) \<longrightarrow> index_in_bounds c') \<and>
   (index_in_bounds c \<and> (Index c = max_cur c \<or> Index c < int (length (Result c)))
      \<longrightarrow> index_in_bounds (snd (Next c p)))"
  using FetchNext_bounds [of c send marshal unmarshal r n res c' r' n'] Next_bounds [of c p]
  by (intro conjI impI) (elim conjE, assumption)+

theorem index_bounds_FetchNext_Next_witness:
  "index_in_bounds (cursor_over [''1'', ''2'']) \<and>
   FetchNext (reply_with 200 None (\<lambda>c. c)) marshal_text unmarshal_text
       (cursor_over [''1'', ''2'']) (Pointer String []) offline =
     Returns ((True, None), cursor_over [''1'', ''2''] \<lparr> Index := 1 \<rparr>, Pointer String ''1'', offline) \<and>
   index_in_bounds (cursor_over [''1'', ''2''] \<lparr> Index := 1 \<rparr>) \<and>
   Index (cursor_over [''1'', ''2'']) < int (length (Result (cursor_over [''1'', ''2'']))) \<and>
   index_in_bounds (snd (Next (cursor_over [''1'', ''2'']) (NilPointer :: string target)))"
proof -
  have inv: "index_in_bounds (cursor_over [''1'', ''2''])"
    by (simp add: index_in_bounds_def cursor_over_def zero_Cursor_def)
  have run: "FetchNext (reply_with 200 None (\<lambda>c. c)) marshal_text unmarshal_text
       (cursor_over [''1'', ''2'']) (Pointer String []) offline =
     Returns ((True, None), cursor_over [''1'', ''2''] \<lparr> Index := 1 \<rparr>, Pointer String ''1'', offline)"
    by (simp add: FetchNext_def FetchNext_row_def index_slice_def cursor_over_def zero_Cursor_def
          marshal_text_def unmarshal_text_def)
  have room: "Index (cursor_over [''1'', ''2'']) < int (length (Result (cursor_over [''1'', ''2''])))"
    by (simp add: cursor_over_def zero_Cursor_def)
  note inst = index_bounds_FetchNext_Next
    [where c = "cursor_over [''1'', ''2'']" and send = "reply_with 200 None (\<lambda>c. c)"
       and marshal = marshal_text and unmarshal = unmarshal_text and r = "Pointer String []"
       and n = offline and res = "(True, None)" and c' = "cursor_over [''1'', ''2''] \<lparr> Index := 1 \<rparr>"
       and r' = "Pointer String ''1''" and n' = offline and p = "NilPointer :: string target"]
  have a: "index_in_bounds (cursor_over [''1'', ''2''] \<lparr> Index := 1 \<rparr>)"
    using inst inv run by simp
  have b: "index_in_bounds (snd (Next (cursor_over [''1'', ''2'']) (NilPointer :: string target)))"
    using inst inv room by simp
  from inv run a room b show ?thesis by (intro conjI)
qed

text \<open>
  The claim as it stands fails for \<open>Next\<close>: with \<open>max\<close> at 0, where \<open>NewCursor\<close> leaves it, a
  cursor at the end of its one-row batch is moved to \<open>index = 2\<close>. And it fails for
  \<open>FetchNext\<close> when a next-batch fetch is answered with a status other than 200 and a
  body that carries a shorter batch.
\<close>

theorem index_bounds_counterexample:
  "index_in_bounds (cursor_over [''1''] \<lparr> Index := 1 \<rparr>) \<and>
   Next (cursor_over [''1''] \<lparr> Index := 1 \<rparr>) (NilPointer :: string target) =
     (False, cursor_over [''1''] \<lparr> Index := 2 \<rparr>) \<and>
   \<not> index_in_bounds (cursor_over [''1''] \<lparr> Index := 2 \<rparr>) \<and>
   index_in_bounds (cursor_over [''1''] \<lparr> Index := 1, More := True \<rparr>) \<and>
   FetchNext (reply_with 500 None (\<lambda>c. c \<lparr> Result := [] \<rparr>)) marshal_text unmarshal_text
       (cursor_over [''1''] \<lparr> Index := 1, More := True \<rparr>) (Pointer String []) offline =
     Returns ((False, Some (ErrorsNew ''Cursor batch request returned status code of 500'')),
              cursor_over [] \<lparr> Index := 1, More := True \<rparr>, Pointer String [],
              \<lparr> server = (),
                calls = [\<lparr> resource = ''cursor'', ident = ''42'', verb = ''PUT'' \<rparr>] \<rparr>) \<and>
   \<not> index_in_bounds (cursor_over [] \<lparr> Index := 1, More := True \<rparr>)"
  by (simp add: index_in_bounds_def Next_def FetchNext_def cursor_send_def cursor_over_def
        zero_Cursor_def reply_with_def offline_def Itoa_def digits.simps)

text \<open>Counting down the calls that are left against the rows that are left.\<close>

lemma min_Suc_diff: "i < t \<Longrightarrow> min (Suc k) (t - i) = Suc (min k (t - Suc i))"
  by arith

lemma Suc_le_diff: "i < t \<Longrightarrow> (Suc k \<le> t - i) = (k \<le> t - Suc i)"
  by arith

lemma Suc_diff_diff: "i < t \<Longrightarrow> Suc k - (t - i) = k - (t - Suc i)"
  by arith

text \<open>
  One call of \<open>FetchOne\<close> on a cursor with \<open>hasMore = false\<close>: past \<open>max\<close> it returns false
  and changes nothing; at a row of the batch, not past \<open>max\<close>, it decodes the row and moves
  on; not past \<open>max\<close> and at or beyond the end of the batch it panics. Rows are taken to
  decode into the targets \<open>ok\<close> holds of, and to leave such a target.
\<close>

lemma FetchOne_used_up:
  assumes "\<not> More c" and "max_cur c < Index c"
  shows "FetchOne send marshal unmarshal c r n = Returns (False, c, r, n)"
  using assms by (simp add: FetchOne_def)

lemma FetchOne_calls_used_up:
  assumes "\<not> More c" and "max_cur c < Index c"
  shows "FetchOne_calls send marshal unmarshal k c r n = replicate k (Returns False)"
  using assms by (induction k) (simp_all add: FetchOne_used_up)

lemma FetchOne_at_row:
  assumes "0 \<le> Index c" and "Index c \<le> max_cur c" and "Index c < int (length (Result c))"
    and dec: "\<forall>x\<in>set (Result c). \<exists>b. marshal x = Inr b \<and>
            (\<forall>t. ok t \<longrightarrow> fst (unmarshal b t) = None \<and> ok (snd (unmarshal b t)))"
    and okr: "ok r"
  shows "\<exists>r'. ok r' \<and> FetchOne send marshal unmarshal c r n =
                Returns (True, c \<lparr> Index := Index c + 1 \<rparr>, r', n)"
proof -
  let ?x = "Result c ! nat (Index c)"
  from assms have "?x \<in> set (Result c)" by simp
  with dec okr obtain b where b: "marshal ?x = Inr b" "fst (unmarshal b r) = None"
    "ok (snd (unmarshal b r))" by blast
  obtain e r' where u: "unmarshal b r = (e, r')" by (cases "unmarshal b r")
  with b have "e = None" and "ok r'" by simp_all
  with assms b u show ?thesis by (simp add: FetchOne_def index_slice_def)
qed

lemma FetchOne_past_batch:
  assumes "Index c \<le> max_cur c" and "int (length (Result c)) \<le> Index c"
  shows "FetchOne send marshal unmarshal c r n =
           Panics (IndexOutOfRange (Index c) (length (Result c)))"
  using assms by (simp add: FetchOne_def index_slice_def)

lemma FetchOne_calls_from:
  assumes dec: "\<forall>x\<in>set rows. \<exists>b. marshal x = Inr b \<and>
            (\<forall>t. ok t \<longrightarrow> fst (unmarshal b t) = None \<and> ok (snd (unmarshal b t)))"
    and t: "t = min (nat (m + 1)) (length rows)"
  shows "\<not> More c \<Longrightarrow> Result c = rows \<Longrightarrow> max_cur c = m \<Longrightarrow> Index c = int i \<Longrightarrow> i \<le> t
         \<Longrightarrow> ok r \<Longrightarrow>
     FetchOne_calls send marshal unmarshal k c r n =
       replicate (min k (t - i)) (Returns True) @
       (if k \<le> t - i then []
        else if m < int (length rows) then replicate (k - (t - i)) (Returns False)
        else [Panics (IndexOutOfRange (int (length rows)) (length rows))])"
proof (induction k arbitrary: c r i)
  case 0
  show ?case by simp
next
  case (Suc k)
  let ?tail = "\<lambda>k i. if k \<le> t - i then []
        else if m < int (length rows) then replicate (k - (t - i)) (Returns False)
        else [Panics (IndexOutOfRange (int (length rows)) (length rows))]"
  show ?case
  proof (cases "i < t")
    case True
    from True t have le: "int i \<le> m" by arith
    from True t have lt: "i < length rows" by arith
    have "\<exists>r'. ok r' \<and> FetchOne send marshal unmarshal c r n =
                Returns (True, c \<lparr> Index := Index c + 1 \<rparr>, r', n)"
    proof (rule FetchOne_at_row)
      show "0 \<le> Index c" using Suc.prems(4) by simp
      show "Index c \<le> max_cur c" using Suc.prems(3,4) le by simp
      show "Index c < int (length (Result c))" using Suc.prems(2,4) lt by simp
      show "ok r" by (rule Suc.prems(6))
      show "\<forall>x\<in>set (Result c). \<exists>b. marshal x = Inr b \<and>
            (\<forall>t. ok t \<longrightarrow> fst (unmarshal b t) = None \<and> ok (snd (unmarshal b t)))"
        using Suc.prems(2) dec by simp
    qed
    then obtain r' where okr': "ok r'" and
      step: "FetchOne send marshal unmarshal c r n = Returns (True, c \<lparr> Index := Index c + 1 \<rparr>, r', n)"
      by (elim exE conjE)
    have rest: "FetchOne_calls send marshal unmarshal k (c \<lparr> Index := Index c + 1 \<rparr>) r' n =
       replicate (min k (t - Suc i)) (Returns True) @ ?tail k (Suc i)"
    proof (rule Suc.IH)
      show "\<not> More (c \<lparr> Index := Index c + 1 \<rparr>)" using Suc.prems(1) by simp
      show "Result (c \<lparr> Index := Index c + 1 \<rparr>) = rows" using Suc.prems(2) by simp
      show "max_cur (c \<lparr> Index := Index c + 1 \<rparr>) = m" using Suc.prems(3) by simp
      show "Index (c \<lparr> Index := Index c + 1 \<rparr>) = int (Suc i)" using Suc.prems(4) by simp
      show "Suc i \<le> t" using True by simp
      show "ok r'" by (rule okr')
    qed
    have a1: "min (Suc k) (t - i) = Suc (min k (t - Suc i))" using True by (rule min_Suc_diff)
    have a2: "?tail (Suc k) i = ?tail k (Suc i)"
      unfolding Suc_le_diff [OF True] Suc_diff_diff [OF True] ..
    have "FetchOne_calls send marshal unmarshal (Suc k) c r n =
            Returns True # FetchOne_calls send marshal unmarshal k (c \<lparr> Index := Index c + 1 \<rparr>) r' n"
      by (simp add: step)
    also have "\<dots> = Returns True # (replicate (min k (t - Suc i)) (Returns True) @ ?tail k (Suc i))"
      by (simp only: rest)
    also have "\<dots> = replicate (Suc (min k (t - Suc i))) (Returns True) @ ?tail k (Suc i)"
      by simp
    also have "\<dots> = replicate (min (Suc k) (t - i)) (Returns True) @ ?tail (Suc k) i"
      by (simp only: a1 a2)
    finally show ?thesis .
  next
    case False
    with Suc.prems(5) have it: "t - i = 0" by simp
    from False Suc.prems(5) have eq: "i = t" by simp
    show ?thesis
    proof (cases "m < int (length rows)")
      case True
      from eq t True have "m < int i" by arith
      then have "max_cur c < Index c" using Suc.prems(3,4) by simp
      with Suc.prems(1) have "FetchOne_calls send marshal unmarshal (Suc k) c r n
                             = replicate (Suc k) (Returns False)"
        by (rule FetchOne_calls_used_up)
      with it True show ?thesis by simp
    next
      case False
      from eq t False have len: "i = length rows" by arith
      from eq t False have "int i \<le> m" by arith
      then have "Index c \<le> max_cur c" using Suc.prems(3,4) by simp
      moreover have "int (length (Result c)) \<le> Index c" using Suc.prems(2,4) len by simp
      ultimately have "FetchOne send marshal unmarshal c r n =
           Panics (IndexOutOfRange (Index c) (length (Result c)))"
        by (rule FetchOne_past_batch)
      then have "FetchOne send marshal unmarshal c r n =
           Panics (IndexOutOfRange (int (length rows)) (length rows))"
        using Suc.prems(2,4) len by simp
      with it False show ?thesis by simp
    qed
  qed
qed

lemma FetchNext_at_row:
  assumes "0 \<le> Index c" and "Index c < int (length (Result c))"
    and dec: "\<forall>x\<in>set (Result c). \<exists>b. marshal x = Inr b \<and>
            (\<forall>t. ok t \<longrightarrow> fst (unmarshal b t) = None \<and> ok (snd (unmarshal b t)))"
    and okr: "ok r"
  shows "\<exists>r'. ok r' \<and> FetchNext send marshal unmarshal c r n =
                Returns ((True, None), c \<lparr> Index := Index c + 1 \<rparr>, r', n)"
proof -
  let ?x = "Result c ! nat (Index c)"
  from assms have "?x \<in> set (Result c)" by simp
  with dec okr obtain b where b: "marshal ?x = Inr b" "fst (unmarshal b r) = None"
    "ok (snd (unmarshal b r))" by blast
  obtain e r' where u: "unmarshal b r = (e, r')" by (cases "unmarshal b r")
  with b have "e = None" and "ok r'" by simp_all
  with assms b u show ?thesis by (simp add: FetchNext_def FetchNext_row_def index_slice_def)
qed

lemma FetchNext_calls_used_up:
  assumes "\<not> More c" and "int (length (Result c)) \<le> Index c"
  shows "FetchNext_calls send marshal unmarshal k c r n = replicate k (Returns (False, None))"
  using assms by (induction k) (simp_all add: FetchNext_def)

lemma FetchNext_calls_from:
  assumes dec: "\<forall>x\<in>set rows. \<exists>b. marshal x = Inr b \<and>
            (\<forall>t. ok t \<longrightarrow> fst (unmarshal b t) = None \<and> ok (snd (unmarshal b t)))"
  shows "\<not> More c \<Longrightarrow> Result c = rows \<Longrightarrow> Index c = int i \<Longrightarrow> i \<le> length rows
         \<Longrightarrow> ok r \<Longrightarrow>
     FetchNext_calls send marshal unmarshal k c r n =
       replicate (min k (length rows - i)) (Returns (True, None)) @
       replicate (k - (length rows - i)) (Returns (False, None))"
proof (induction k arbitrary: c r i)
  case 0
  show ?case by simp
next
  case (Suc k)
  show ?case
  proof (cases "i < length rows")
    case True
    have "\<exists>r'. ok r' \<and> FetchNext send marshal unmarshal c r n =
                Returns ((True, None), c \<lparr> Index := Index c + 1 \<rparr>, r', n)"
    proof (rule FetchNext_at_row)
      show "0 \<le> Index c" using Suc.prems(3) by simp
      show "Index c < int (length (Result c))" using Suc.prems(2,3) True by simp
      show "ok r" by (rule Suc.prems(5))
      show "\<forall>x\<in>set (Result c). \<exists>b. marshal x = Inr b \<and>
            (\<forall>t. ok t \<longrightarrow> fst (unmarshal b t) = None \<and> ok (snd (unmarshal b t)))"
        using Suc.prems(2) dec by simp
    qed
    then obtain r' where okr': "ok r'" and
      step: "FetchNext send marshal unmarshal c r n =
               Returns ((True, None), c \<lparr> Index := Index c + 1 \<rparr>, r', n)"
      by (elim exE conjE)
    have rest: "FetchNext_calls send marshal unmarshal k (c \<lparr> Index := Index c + 1 \<rparr>) r' n =
       replicate (min k (length rows - Suc i)) (Returns (True, None)) @
       replicate (k - (length rows - Suc i)) (Returns (False, None))"
    proof (rule Suc.IH)
      show "\<not> More (c \<lparr> Index := Index c + 1 \<rparr>)" using Suc.prems(1) by simp
      show "Result (c \<lparr> Index := Index c + 1 \<rparr>) = rows" using Suc.prems(2) by simp
      show "Index (c \<lparr> Index := Index c + 1 \<rparr>) = int (Suc i)" using Suc.prems(3) by simp
      show "Suc i \<le> length rows" using True by simp
      show "ok r'" by (rule okr')
    qed
    have a1: "min (Suc k) (length rows - i) = Suc (min k (length rows - Suc i))"
      using True by (rule min_Suc_diff)
    have a2: "Suc k - (length rows - i) = k - (length rows - Suc i)"
      using True by (rule Suc_diff_diff)
    have "FetchNext_calls send marshal unmarshal (Suc k) c r n =
            Returns (True, None)
              # FetchNext_calls send marshal unmarshal k (c \<lparr> Index := Index c + 1 \<rparr>) r' n"
      by (simp add: step)
    also have "\<dots> = replicate (Suc (min k (length rows - Suc i))) (Returns (True, None)) @
                    replicate (k - (length rows - Suc i)) (Returns (False, None))"
      by (simp add: rest)
    finally show ?thesis by (simp only: a1 a2)
  next
    case False
    with Suc.prems(4) have it: "length rows - i = 0" by simp
    from False Suc.prems(2,3) have "int (length (Result c)) \<le> Index c" by simp
    with Suc.prems(1) have "FetchNext_calls send marshal unmarshal (Suc k) c r n
                           = replicate (Suc k) (Returns (False, None))"
      by (rule FetchNext_calls_used_up)
    with it show ?thesis by simp
  qed
qed

text \<open>
  C1, as amended. For every cursor with batch \<open>[r0, ..., r(n-1)]\<close>, \<open>index = 0\<close> and
  \<open>hasMore = false\<close> whose rows decode into the caller's target, \<open>k\<close> successive calls to
  \<open>FetchNext\<close> return \<open>(true, nil)\<close> on the first \<open>n\<close> calls and \<open>(false, nil)\<close> on every later
  one. \<open>FetchOne\<close> tests \<open>index > max\<close>, and \<open>k\<close> successive calls to it return true on the
  first \<open>min(max + 1, n)\<close> calls, which is never more than \<open>n\<close>: never on one call more than
  \<open>FetchNext\<close>. After them \<open>FetchOne\<close> returns false on every call when \<open>max < n\<close>; when
  \<open>max \<ge> n\<close> the next call reads \<open>Result[n]\<close> and panics, so \<open>index\<close> reaching \<open>len(batch)\<close>
  below \<open>max\<close> ends in a panic and not in an extra true.
\<close>

theorem FetchOne_never_one_more:
  assumes "Index c = 0" and "\<not> More c" and "ok r"
    and "\<forall>x\<in>set (Result c). \<exists>b. marshal x = Inr b \<and>
            (\<forall>t. ok t \<longrightarrow> fst (unmarshal b t) = None \<and> ok (snd (unmarshal b t)))"
  shows "FetchNext_calls send marshal unmarshal k c r n =
           replicate (min k (length (Result c))) (Returns (True, None)) @
           replicate (k - length (Result c)) (Returns (False, None)) \<and>
         FetchOne_calls send marshal unmarshal k c r n =
           replicate (min k (min (nat (max_cur c + 1)) (length (Result c)))) (Returns True) @
           (if k \<le> min (nat (max_cur c + 1)) (length (Result c)) then []
            else if max_cur c < int (length (Result c))
                 then replicate (k - min (nat (max_cur c + 1)) (length (Result c))) (Returns False)
                 else [Panics (IndexOutOfRange (int (length (Result c))) (length (Result c)))])"
proof
  show "FetchNext_calls send marshal unmarshal k c r n =
           replicate (min k (length (Result c))) (Returns (True, None)) @
           replicate (k - length (Result c)) (Returns (False, None))"
    using FetchNext_calls_from [OF assms(4) assms(2) refl, of 0 r send k n] assms(1,3) by simp
  show "FetchOne_calls send marshal unmarshal k c r n =
           replicate (min k (min (nat (max_cur c + 1)) (length (Result c)))) (Returns True) @
           (if k \<le> min (nat (max_cur c + 1)) (length (Result c)) then []
            else if max_cur c < int (length (Result c))
                 then replicate (k - min (nat (max_cur c + 1)) (length (Result c))) (Returns False)
                 else [Panics (IndexOutOfRange (int (length (Result c))) (length (Result c)))])"
    using FetchOne_calls_from [OF assms(4) refl assms(2) refl refl, of 0 r send k n] assms(1,3)
    by simp
qed

theorem FetchOne_never_one_more_witness:
  "FetchNext_calls (reply_with 200 None (\<lambda>c. c)) marshal_text unmarshal_text 5
       (cursor_over [''1'', ''2'', ''3'']) (Pointer String []) offline =
     [Returns (True, None), Returns (True, None), Returns (True, None),
      Returns (False, None), Returns (False, None)] \<and>
   FetchOne_calls (reply_with 200 None (\<lambda>c. c)) marshal_text unmarshal_text 5
       (cursor_over [''1'', ''2'', ''3'']) (Pointer String []) offline =
     [Returns True, Returns False, Returns False, Returns False, Returns False]"
proof -
  let ?c = "cursor_over [''1'', ''2'', ''3'']"
  let ?ok = "\<lambda>t. Elem_Kind t = Inr String"
  have h1: "Index ?c = 0" by (simp add: cursor_over_def zero_Cursor_def)
  have h2: "\<not> More ?c" by (simp add: cursor_over_def zero_Cursor_def)
  have h3: "?ok (Pointer String [])" by simp
  have h4: "\<forall>x\<in>set (Result ?c). \<exists>b. marshal_text x = Inr b \<and>
            (\<forall>t. ?ok t \<longrightarrow> fst (unmarshal_text b t) = None \<and> ?ok (snd (unmarshal_text b t)))"
    by (auto simp add: marshal_text_def unmarshal_text_def split: target.splits)
  have len: "length (Result ?c) = 3" and mx: "max_cur ?c = 0"
    by (simp_all add: cursor_over_def zero_Cursor_def)
  note inst = FetchOne_never_one_more
    [where c = ?c and ok = ?ok and r = "Pointer String []" and marshal = marshal_text
       and unmarshal = unmarshal_text and send = "reply_with 200 None (\<lambda>c. c)" and k = 5
       and n = offline, OF h1 h2 h3 h4]
  have r3: "replicate 3 x = [x, x, x]" for x :: "'z"
    by (simp add: eval_nat_numeral)
  have r2: "replicate 2 x = [x, x]" for x :: "'z"
    by (simp add: eval_nat_numeral)
  have r4: "replicate 4 x = [x, x, x, x]" for x :: "'z"
    by (simp add: eval_nat_numeral)
  from inst show ?thesis
    unfolding len mx by (simp add: r2 r3 r4)
qed

text \<open>
  The claim as it stands, on a batch of three rows: \<open>FetchNext\<close> returns true three times.
  \<open>FetchOne\<close> returns true once with \<open>max = 0\<close>, the value \<open>NewCursor\<close> gives it and no
  statement of cursor.go changes; three times with \<open>max = 2\<close>; and three times followed by
  a panic with \<open>max = 3\<close>, the batch length. In no case four times.
\<close>

theorem FetchOne_one_more_counterexample:
  "FetchNext_calls (reply_with 200 None (\<lambda>c. c)) marshal_text unmarshal_text 5
       (cursor_over [''1'', ''2'', ''3'']) (Pointer String []) offline =
     [Returns (True, None), Returns (True, None), Returns (True, None),
      Returns (False, None), Returns (False, None)] \<and>
   max_cur (cursor_over [''1'', ''2'', ''3'']) = 0 \<and>
   FetchOne_calls (reply_with 200 None (\<lambda>c. c)) marshal_text unmarshal_text 5
       (cursor_over [''1'', ''2'', ''3'']) (Pointer String []) offline =
     [Returns True, Returns False, Returns False, Returns False, Returns False] \<and>
   FetchOne_calls (reply_with 200 None (\<lambda>c. c)) marshal_text unmarshal_text 5
       (cursor_over [''1'', ''2'', ''3''] \<lparr> max_cur := 2 \<rparr>) (Pointer String []) offline =
     [Returns True, Returns True, Returns True, Returns False, Returns False] \<and>
   FetchOne_calls (reply_with 200 None (\<lambda>c. c)) marshal_text unmarshal_text 5
       (cursor_over [''1'', ''2'', ''3''] \<lparr> max_cur := 3 \<rparr>) (Pointer String []) offline =
     [Returns True, Returns True, Returns True, Panics (IndexOutOfRange 3 3)]"
  by (simp add: eval_nat_numeral FetchNext_def FetchNext_row_def FetchOne_def index_slice_def
        cursor_over_def zero_Cursor_def marshal_text_def unmarshal_text_def)

end
